theory Spec2Isabelle
  imports Main
begin

section \<open>Python values and exceptions\<close>

text \<open>
  A Python \<open>str\<close> is a \<^typ>\<open>string\<close>; a character stands for the code point of the
  same number, so the model covers the strings whose code points are below 256.
  A dict is an association list in insertion order (its keys are taken to be distinct
  strings, as they are in every dict literal of the source). \<open>PObject c\<close> is any
  object of a class \<open>c\<close> that \<open>json\<close> has no encoding for. Floats are outside the model.
\<close>

datatype pyval =
    PNone
  | PBool bool
  | PInt int
  | PStr string
  | PList "pyval list"
  | PDict "(string \<times> pyval) list"
  | PObject string

text \<open>
  An exception as the source observes it: the name of its class
  (\<open>e.__class__.__name__\<close>), the names of the classes that class derives from (an
  \<open>except C\<close> clause catches the instances of \<open>C\<close> and of the classes derived from it),
  \<open>str(e)\<close>, and, for an instance of \<open>APIStatusError\<close> or \<open>APIResponseValidationError\<close>,
  the pair \<open>(e.status_code, e.response.text)\<close>.
\<close>

record exn =
  exn_class :: string
  exn_bases :: "string list"
  exn_str :: string
  exn_status :: "(int \<times> string) option"

definition is_instance :: "exn \<Rightarrow> string \<Rightarrow> bool" where
  "is_instance e cls = (cls = exn_class e \<or> cls \<in> set (exn_bases e))"

definition std_exn :: "string \<Rightarrow> string \<Rightarrow> exn" where
  "std_exn cls msg =
     \<lparr>exn_class = cls, exn_bases = [''Exception'', ''BaseException''], exn_str = msg,
      exn_status = None\<rparr>"

definition TypeError :: "string \<Rightarrow> exn" where
  "TypeError msg = std_exn ''TypeError'' msg"

definition KeyError :: "string \<Rightarrow> exn" where
  "KeyError k =
     \<lparr>exn_class = ''KeyError'',
      exn_bases = [''LookupError'', ''Exception'', ''BaseException''],
      exn_str = [CHR 0x27] @ k @ [CHR 0x27], exn_status = None\<rparr>"

definition ValueError :: "string \<Rightarrow> exn" where
  "ValueError msg = std_exn ''ValueError'' msg"

definition EOFError :: exn where
  "EOFError = std_exn ''EOFError'' ''EOF when reading a line''"

definition KeyboardInterrupt :: exn where
  "KeyboardInterrupt =
     \<lparr>exn_class = ''KeyboardInterrupt'', exn_bases = [''BaseException''], exn_str = [],
      exn_status = None\<rparr>"

section \<open>The \<open>json.dumps\<close> of the standard library\<close>

text \<open>
  \<open>json.dumps(obj)\<close> with its default arguments: separators \<open>", "\<close> and \<open>": "\<close>, no
  indentation, \<open>ensure_ascii=True\<close>. A string is escaped character by character: the
  quote and the backslash by a backslash, the five control characters with a short
  escape by it, every other character outside space..tilde by \<open>\uXXXX\<close>.
  An object without an encoding raises \<open>TypeError\<close>.
\<close>

definition hex_digit :: "nat \<Rightarrow> char" where
  "hex_digit n = (''0123456789abcdef'' ! (n mod 16))"

definition hex4 :: "nat \<Rightarrow> string" where
  "hex4 n = [hex_digit (n div 4096), hex_digit (n div 256), hex_digit (n div 16), hex_digit n]"

definition json_escape_char :: "char \<Rightarrow> string" where
  "json_escape_char c =
     (if c = CHR 0x22 then [CHR 0x5C, CHR 0x22]
      else if c = CHR 0x5C then [CHR 0x5C, CHR 0x5C]
      else if c = CHR 0x0A then [CHR 0x5C, CHR ''n'']
      else if c = CHR 0x0D then [CHR 0x5C, CHR ''r'']
      else if c = CHR 0x09 then [CHR 0x5C, CHR ''t'']
      else if c = CHR 0x08 then [CHR 0x5C, CHR ''b'']
      else if c = CHR 0x0C then [CHR 0x5C, CHR ''f'']
      else if 0x20 \<le> (of_char c :: nat) \<and> (of_char c :: nat) \<le> 0x7E then [c]
      else [CHR 0x5C, CHR ''u''] @ hex4 (of_char c))"

definition json_string :: "string \<Rightarrow> string" where
  "json_string s = [CHR 0x22] @ concat (map json_escape_char s) @ [CHR 0x22]"

fun show_nat :: "nat \<Rightarrow> string" where
  "show_nat n =
     (if n < 10 then [hex_digit n] else show_nat (n div 10) @ [hex_digit (n mod 10)])"

declare show_nat.simps [simp del]

definition show_int :: "int \<Rightarrow> string" where
  "show_int i = (if i < 0 then CHR ''-'' # show_nat (nat (- i)) else show_nat (nat i))"

fun join :: "string \<Rightarrow> string list \<Rightarrow> string" where
  "join sep [] = []"
| "join sep [x] = x"
| "join sep (x # y # ys) = x @ sep @ join sep (y # ys)"

fun json_dumps :: "pyval \<Rightarrow> exn + string"
  and dumps_elems :: "pyval list \<Rightarrow> exn + string list"
  and dumps_items :: "(string \<times> pyval) list \<Rightarrow> exn + string list"
where
  "json_dumps PNone = Inr ''null''"
| "json_dumps (PBool b) = Inr (if b then ''true'' else ''false'')"
| "json_dumps (PInt i) = Inr (show_int i)"
| "json_dumps (PStr s) = Inr (json_string s)"
| "json_dumps (PList xs) =
     (case dumps_elems xs of
        Inl e \<Rightarrow> Inl e
      | Inr ss \<Rightarrow> Inr (''['' @ join '', '' ss @ '']''))"
| "json_dumps (PDict kvs) =
     (case dumps_items kvs of
        Inl e \<Rightarrow> Inl e
      | Inr ss \<Rightarrow> Inr (''{'' @ join '', '' ss @ ''}''))"
| "json_dumps (PObject cls) =
     Inl (TypeError (''Object of type '' @ cls @ '' is not JSON serializable''))"
| "dumps_elems [] = Inr []"
| "dumps_elems (x # xs) =
     (case json_dumps x of
        Inl e \<Rightarrow> Inl e
      | Inr s \<Rightarrow> (case dumps_elems xs of Inl e \<Rightarrow> Inl e | Inr ss \<Rightarrow> Inr (s # ss)))"
| "dumps_items [] = Inr []"
| "dumps_items (kv # kvs) =
     (case json_dumps (snd kv) of
        Inl e \<Rightarrow> Inl e
      | Inr s \<Rightarrow>
          (case dumps_items kvs of
             Inl e \<Rightarrow> Inl e
           | Inr ss \<Rightarrow> Inr ((json_string (fst kv) @ '': '' @ s) # ss)))"

section \<open>Collaborators declared outside the source files\<close>

text \<open>
  Modelled from the spec: the class \<open>ToolResult\<close> of \<open>computer_use_demo.tools\<close>, "an
  object exposing \<open>output\<close> (text or absent), \<open>error\<close> (text or absent), \<open>base64_image\<close>
  (encoded image or absent), \<open>system\<close> (text or absent)". The field \<open>output\<close> is
  \<open>output_text\<close> here.
\<close>

record tool_result =
  output_text :: "string option"
  error :: "string option"
  base64_image :: "string option"
  system :: "string option"

text \<open>
  What \<open>LogEntry._serialize_content\<close> can be handed (its parameter has type \<open>Any\<close>), as
  the branches of that function tell it apart. The classes \<open>BetaMessageParam\<close> and
  \<open>Message\<close> belong to the \<open>anthropic\<close> package. \<open>CDict d\<close> is a dict with items \<open>d\<close>
  (the message parameters that the driver builds are dicts), \<open>CMessage d\<close> a \<open>Message\<close>
  whose \<open>model_dump()\<close> is the dict with items \<open>d\<close>, \<open>COther s\<close> any other object, with
  \<open>str\<close> of it \<open>s\<close>.
\<close>

datatype content =
    CDict "(string \<times> pyval) list"
  | CMessage "(string \<times> pyval) list"
  | CToolResult tool_result
  | COther string

text \<open>
  An argument of type \<open>Any\<close> of \<open>log_api_interaction\<close>, as that function observes it:
  \<open>x.__dict__\<close> when \<open>hasattr(x, '__dict__')\<close>, and \<open>str(x)\<close>.
\<close>

record py_any =
  obj_dict :: "(string \<times> pyval) list option"
  obj_str :: string

section \<open>The session logger (\<open>logging_utils.py\<close>)\<close>

text \<open>Python's \<open>bool(x)\<close> and \<open>if x\<close> on an optional string: \<open>None\<close> and \<open>""\<close> are false.\<close>

definition truthy :: "string option \<Rightarrow> bool" where
  "truthy x = (case x of None \<Rightarrow> False | Some s \<Rightarrow> s \<noteq> [])"

definition opt_str :: "string option \<Rightarrow> pyval" where
  "opt_str x = (case x of None \<Rightarrow> PNone | Some s \<Rightarrow> PStr s)"

record LogEntry =
  entry_type :: string
  entry_content :: content
  timestamp :: string
  metadata :: "(string \<times> pyval) list"

text \<open>
  The first test of \<open>_serialize_content\<close> is
  \<open>isinstance(self.content, (BetaMessageParam, dict))\<close>. \<open>BetaMessageParam\<close> is a
  \<open>TypedDict\<close>: its values are plain dicts, no object has it as its type, and Python's
  \<open>isinstance\<close> raises \<open>TypeError\<close> when it is asked about a \<open>TypedDict\<close> class, whatever
  the object. The classes of the tuple are tried in order, so the test raises before
  \<open>dict\<close> is tried, and the exception leaves \<open>_serialize_content\<close>.
\<close>

definition typed_dict_error :: exn where
  "typed_dict_error = TypeError ''TypedDict does not support instance and class checks''"

definition isinstance_BetaMessageParam :: "content \<Rightarrow> exn + bool" where
  "isinstance_BetaMessageParam c = Inl typed_dict_error"

definition serialize_content :: "content \<Rightarrow> exn + pyval" where
  "serialize_content c =
     (case isinstance_BetaMessageParam c of
        Inl e \<Rightarrow> Inl e
      | Inr _ \<Rightarrow>
          (case c of
             CDict d \<Rightarrow> Inr (PDict d)
           | CMessage d \<Rightarrow> Inr (PDict d)
           | CToolResult r \<Rightarrow>
               Inr (PDict [(''output'', opt_str (output_text r)),
                           (''error'', opt_str (error r)),
                           (''base64_image'', PBool (truthy (base64_image r))),
                           (''system'', opt_str (system r))])
           | COther s \<Rightarrow> Inr (PStr s)))"

definition to_dict :: "LogEntry \<Rightarrow> exn + pyval" where
  "to_dict e =
     (case serialize_content (entry_content e) of
        Inl x \<Rightarrow> Inl x
      | Inr c \<Rightarrow>
          Inr (PDict [(''timestamp'', PStr (timestamp e)),
                      (''type'', PStr (entry_type e)),
                      (''content'', c),
                      (''metadata'', PDict (metadata e))]))"

text \<open>
  The state of one logger and of the world it writes to: the text of the session's log
  file (an absent file is the empty text) and the number of times the clock has been
  read. \<open>clock k\<close> is \<open>datetime.now().isoformat()\<close> at the reading number \<open>k\<close>.
  Failures of the file system itself are outside the model.
\<close>

record logger =
  log_file :: string
  clock_reads :: nat

text \<open>
  \<open>log_entry\<close>: the entry is built first (one reading of the clock, \<open>metadata or {}\<close>),
  then the file is opened for appending and \<open>json.dumps(entry.to_dict()) + '\n'\<close> is
  written; when \<open>to_dict\<close> or \<open>json.dumps\<close> raises, nothing is written and the exception
  leaves \<open>log_entry\<close>.
\<close>

definition log_entry ::
  "(nat \<Rightarrow> string) \<Rightarrow> string \<Rightarrow> content \<Rightarrow> (string \<times> pyval) list option \<Rightarrow>
     'a logger_scheme \<Rightarrow> (exn + unit) \<times> 'a logger_scheme" where
  "log_entry clock ty c md lg =
     (let entry = \<lparr>entry_type = ty, entry_content = c,
                    timestamp = clock (clock_reads lg),
                    metadata = (case md of None \<Rightarrow> [] | Some m \<Rightarrow> m)\<rparr>;
          lg1 = lg\<lparr>clock_reads := Suc (clock_reads lg)\<rparr>
      in case to_dict entry of
           Inl e \<Rightarrow> (Inl e, lg1)
         | Inr d \<Rightarrow>
             (case json_dumps d of
                Inl e \<Rightarrow> (Inl e, lg1)
              | Inr line \<Rightarrow> (Inr (), lg1\<lparr>log_file := log_file lg1 @ line @ [CHR 0x0A]\<rparr>)))"

definition log_user_input ::
  "(nat \<Rightarrow> string) \<Rightarrow> content \<Rightarrow> 'a logger_scheme \<Rightarrow> (exn + unit) \<times> 'a logger_scheme" where
  "log_user_input clock message lg = log_entry clock ''user_input'' message None lg"

definition log_assistant_response ::
  "(nat \<Rightarrow> string) \<Rightarrow> content \<Rightarrow> 'a logger_scheme \<Rightarrow> (exn + unit) \<times> 'a logger_scheme" where
  "log_assistant_response clock response lg =
     log_entry clock ''assistant_response'' response None lg"

definition log_tool_use ::
  "(nat \<Rightarrow> string) \<Rightarrow> pyval \<Rightarrow> pyval \<Rightarrow> pyval \<Rightarrow>
     'a logger_scheme \<Rightarrow> (exn + unit) \<times> 'a logger_scheme" where
  "log_tool_use clock tool_name tool_input tool_id lg =
     log_entry clock ''tool_use''
       (CDict [(''name'', tool_name), (''input'', tool_input)])
       (Some [(''tool_id'', tool_id)]) lg"

definition log_tool_result ::
  "(nat \<Rightarrow> string) \<Rightarrow> tool_result \<Rightarrow> pyval \<Rightarrow>
     'a logger_scheme \<Rightarrow> (exn + unit) \<times> 'a logger_scheme" where
  "log_tool_result clock result tool_id lg =
     log_entry clock ''tool_result'' (CToolResult result) (Some [(''tool_id'', tool_id)]) lg"

definition log_error ::
  "(nat \<Rightarrow> string) \<Rightarrow> exn \<Rightarrow> 'a logger_scheme \<Rightarrow> (exn + unit) \<times> 'a logger_scheme" where
  "log_error clock e lg =
     log_entry clock ''error''
       (CDict [(''type'', PStr (exn_class e)), (''message'', PStr (exn_str e))]) None lg"

text \<open>
  \<open>log_api_interaction\<close>; the optional error is an \<open>Exception\<close> or \<open>None\<close>, and an
  exception object is true in \<open>if error\<close>.
\<close>

definition dump_any :: "py_any \<Rightarrow> pyval" where
  "dump_any x = (case obj_dict x of Some d \<Rightarrow> PDict d | None \<Rightarrow> PStr (obj_str x))"

definition log_api_interaction ::
  "(nat \<Rightarrow> string) \<Rightarrow> py_any \<Rightarrow> py_any \<Rightarrow> exn option \<Rightarrow>
     'a logger_scheme \<Rightarrow> (exn + unit) \<times> 'a logger_scheme" where
  "log_api_interaction clock request response err lg =
     (let c = [(''request'', dump_any request),
               (''response'', dump_any response),
               (''error'', (case err of Some e \<Rightarrow> PStr (exn_str e) | None \<Rightarrow> PNone))]
      in log_entry clock ''api_interaction'' (CDict c) None lg)"

section \<open>Built-in string operations\<close>

text \<open>
  \<open>str.strip()\<close>, \<open>str.lower()\<close>, \<open>str.isdigit()\<close> and \<open>int(str)\<close> on the code points
  below 256. \<open>int\<close> accepts surrounding white space, one sign, and decimal digits with
  single underscores between them; the interpreter's configurable limit on the number
  of digits is outside the model.
\<close>

definition is_space :: "char \<Rightarrow> bool" where
  "is_space c =
     (let n = (of_char c :: nat)
      in (9 \<le> n \<and> n \<le> 13) \<or> (28 \<le> n \<and> n \<le> 32) \<or> n = 0x85 \<or> n = 0xA0)"

definition py_strip :: "string \<Rightarrow> string" where
  "py_strip s = rev (dropWhile is_space (rev (dropWhile is_space s)))"

definition lower_char :: "char \<Rightarrow> char" where
  "lower_char c =
     (let n = (of_char c :: nat)
      in if (0x41 \<le> n \<and> n \<le> 0x5A) \<or> (0xC0 \<le> n \<and> n \<le> 0xDE \<and> n \<noteq> 0xD7)
         then char_of (n + 32) else c)"

definition py_lower :: "string \<Rightarrow> string" where
  "py_lower s = map lower_char s"

definition is_decimal :: "char \<Rightarrow> bool" where
  "is_decimal c = (0x30 \<le> (of_char c :: nat) \<and> (of_char c :: nat) \<le> 0x39)"

definition py_isdigit :: "string \<Rightarrow> bool" where
  "py_isdigit s =
     (s \<noteq> [] \<and>
      list_all (\<lambda>c. is_decimal c \<or> c = CHR 0xB2 \<or> c = CHR 0xB3 \<or> c = CHR 0xB9) s)"

fun digits :: "nat \<Rightarrow> string \<Rightarrow> nat option" where
  "digits acc [] = Some acc"
| "digits acc (c # cs) =
     (if is_decimal c then digits (acc * 10 + (of_char c - 0x30)) cs
      else if c = CHR ''_'' then
        (case cs of
           [] \<Rightarrow> None
         | d # _ \<Rightarrow> if is_decimal d then digits acc cs else None)
      else None)"

definition parse_digits :: "string \<Rightarrow> nat option" where
  "parse_digits cs =
     (case cs of [] \<Rightarrow> None | c # _ \<Rightarrow> if is_decimal c then digits 0 cs else None)"

definition is_int_space :: "char \<Rightarrow> bool" where
  "is_int_space c =
     (let n = (of_char c :: nat) in (9 \<le> n \<and> n \<le> 13) \<or> n = 32 \<or> n = 0x85 \<or> n = 0xA0)"

definition py_int :: "string \<Rightarrow> int option" where
  "py_int s =
     (case rev (dropWhile is_int_space (rev (dropWhile is_int_space s))) of
        [] \<Rightarrow> None
      | c # cs \<Rightarrow>
          if c = CHR ''-'' then map_option (\<lambda>n. - int n) (parse_digits cs)
          else if c = CHR ''+'' then map_option int (parse_digits cs)
          else map_option int (parse_digits (c # cs)))"

section \<open>The interactive driver (\<open>command_line.py\<close>)\<close>

text \<open>
  Modelled from the spec: the enumeration \<open>APIProvider\<close> of \<open>computer_use_demo.loop\<close>
  ("enumerated set of supported backends"), with the three members the source names, in
  the order of the branches of \<open>validate_auth\<close>.
\<close>

datatype provider = ANTHROPIC | BEDROCK | VERTEX

definition APIProvider :: "provider list" where
  "APIProvider = [ANTHROPIC, BEDROCK, VERTEX]"

text \<open>
  One call of \<open>input\<close> either returns a line or raises (\<open>EOFError\<close> at the end of the
  input, \<open>KeyboardInterrupt\<close> on an interrupt). The terminal output is the sequence of
  the \<open>print\<close> calls and prompts; the two f-strings of \<open>output_callback\<close> that format
  values of the model's reply are kept with those values.
\<close>

datatype input_event = Line string | InputRaises exn

datatype out =
    Print string
  | Prompt string
  | PrintAssistant pyval
  | PrintToolUse pyval pyval

record session = logger +
  messages :: "pyval list"
  api_key :: string
  provider :: provider
  model :: string
  custom_system_prompt :: string
  only_n_most_recent_images :: int
  hide_images :: bool
  stdin :: "input_event list"
  stdout :: "out list"
  storage :: "string \<rightharpoonup> string"

text \<open>
  Modelled from the spec: the sampling loop of \<open>computer_use_demo.loop\<close>, which "accepts
  system-prompt suffix, model identifier, provider identifier, full message history,
  three callbacks, API key, image-retention count; returns the updated message history
  or raises an error", and calls the callbacks "zero or more times". A run of the loop
  is a tree: it returns, raises, or calls one callback and goes on, knowing whether the
  callback raised. The loop gets the history as a value and does not change the
  caller's list.
\<close>

record loop_args =
  arg_system_prompt_suffix :: string
  arg_model :: string
  arg_provider :: provider
  arg_messages :: "pyval list"
  arg_api_key :: string
  arg_only_n_most_recent_images :: int

datatype callback =
    OutputCallback pyval
  | ToolOutputCallback tool_result pyval
  | ApiResponseCallback py_any py_any "exn option"

datatype loop_run =
    Return "pyval list"
  | Raise exn
  | Call callback "exn option \<Rightarrow> loop_run"

text \<open>
  What the driver takes from its environment: the clock, the table
  \<open>PROVIDER_TO_DEFAULT_MODEL_NAME\<close> and the values of the members of \<open>APIProvider\<close> (both
  declared in \<open>computer_use_demo.loop\<close>), the sampling loop, and what \<open>validate_auth\<close>
  asks of \<open>boto3\<close>, of the environment variable \<open>CLOUD_ML_REGION\<close> and of \<open>google.auth\<close>.
\<close>

record env =
  clock :: "nat \<Rightarrow> string"
  PROVIDER_TO_DEFAULT_MODEL_NAME :: "provider \<Rightarrow> string"
  provider_value :: "provider \<Rightarrow> string"
  sampling_loop :: "loop_args \<Rightarrow> loop_run"
  aws_credentials :: bool
  CLOUD_ML_REGION :: "string option"
  google_credentials :: bool

type_synonym 'a action = "session \<Rightarrow> (exn + 'a) \<times> session"

text \<open>Sequencing of two statements: an exception raised by the first skips the second.\<close>

definition and_then :: "'a action \<Rightarrow> ('a \<Rightarrow> 'b action) \<Rightarrow> 'b action" where
  "and_then m f s = (case m s of (Inl e, s1) \<Rightarrow> (Inl e, s1) | (Inr x, s1) \<Rightarrow> f x s1)"

definition print :: "string \<Rightarrow> session \<Rightarrow> session" where
  "print line s = s\<lparr>stdout := stdout s @ [Print line]\<rparr>"

definition py_input :: "string \<Rightarrow> string action" where
  "py_input prompt s =
     (let s1 = s\<lparr>stdout := stdout s @ [Prompt prompt]\<rparr>
      in case stdin s of
           [] \<Rightarrow> (Inl EOFError, s1)
         | Line l # rest \<Rightarrow> (Inr l, s1\<lparr>stdin := rest\<rparr>)
         | InputRaises e # rest \<Rightarrow> (Inl e, s1\<lparr>stdin := rest\<rparr>))"

text \<open>
  \<open>_save_to_storage\<close> writes one file of the configuration directory; the failures of
  the file system, which the source reports by a \<open>print\<close>, are outside the model.
\<close>

definition save_to_storage :: "string \<Rightarrow> string \<Rightarrow> session \<Rightarrow> session" where
  "save_to_storage filename data s = s\<lparr>storage := (storage s)(filename \<mapsto> data)\<rparr>"

definition validate_auth :: "env \<Rightarrow> session \<Rightarrow> string option" where
  "validate_auth ev s =
     (case provider s of
        ANTHROPIC \<Rightarrow>
          if api_key s = [] then Some ''Enter your Anthropic API key to continue.'' else None
      | BEDROCK \<Rightarrow>
          if \<not> aws_credentials ev
          then Some ''You must have AWS credentials set up to use the Bedrock API.''
          else None
      | VERTEX \<Rightarrow>
          if \<not> truthy (CLOUD_ML_REGION ev)
          then Some ''Set the CLOUD_ML_REGION environment variable to use the Vertex API.''
          else if \<not> google_credentials ev
          then Some ''Your google cloud credentials are not set up correctly.''
          else None)"

definition output_callback :: "env \<Rightarrow> pyval \<Rightarrow> unit action" where
  "output_callback ev c s =
     (case c of
        PDict d \<Rightarrow>
          (case map_of d ''type'' of
             None \<Rightarrow> (Inl (KeyError ''type''), s)
           | Some ty \<Rightarrow>
               if ty = PStr ''text'' then
                 (case map_of d ''text'' of
                    None \<Rightarrow> (Inl (KeyError ''text''), s)
                  | Some txt \<Rightarrow>
                      log_assistant_response (clock ev) (CDict d)
                        (s\<lparr>stdout := stdout s @ [PrintAssistant txt]\<rparr>))
               else if ty = PStr ''tool_use'' then
                 (case map_of d ''name'' of
                    None \<Rightarrow> (Inl (KeyError ''name''), s)
                  | Some nm \<Rightarrow>
                      (case map_of d ''input'' of
                         None \<Rightarrow> (Inl (KeyError ''input''), s)
                       | Some inp \<Rightarrow>
                           (let s1 = s\<lparr>stdout := stdout s @ [PrintToolUse nm inp]\<rparr>
                            in case map_of d ''id'' of
                                 None \<Rightarrow> (Inl (KeyError ''id''), s1)
                               | Some tid \<Rightarrow> log_tool_use (clock ev) nm inp tid s1)))
               else (Inr (), s))
      | _ \<Rightarrow> (Inr (), s))"

definition tool_output_callback :: "env \<Rightarrow> tool_result \<Rightarrow> pyval \<Rightarrow> unit action" where
  "tool_output_callback ev result tool_id s =
     (let s1 = print (CHR 0x0A # ''Tool Output:'') s;
          s2 = (case output_text result of
                  Some t \<Rightarrow> if t \<noteq> [] then print t s1 else s1
                | None \<Rightarrow> s1);
          s3 = (case error result of
                  Some t \<Rightarrow> if t \<noteq> [] then print (''Error: '' @ t) s2 else s2
                | None \<Rightarrow> s2);
          s4 = (if truthy (base64_image result) \<and> \<not> hide_images s3
                then print ''[Screenshot captured]'' s3 else s3)
      in log_tool_result (clock ev) result tool_id s4)"

definition api_response_callback ::
  "env \<Rightarrow> py_any \<Rightarrow> py_any \<Rightarrow> exn option \<Rightarrow> unit action" where
  "api_response_callback ev request response err =
     and_then (log_api_interaction (clock ev) request response err)
       (\<lambda>_ s. case err of
                 None \<Rightarrow> (Inr (), s)
               | Some e \<Rightarrow>
                   (case exn_status e of
                      Some (code, body) \<Rightarrow>
                        (Inr (), print (CHR 0x0A # ''API Error: '' @ show_int code @ '' - '' @ body) s)
                    | None \<Rightarrow> (Inr (), print (CHR 0x0A # ''API Error: '' @ exn_str e) s)))"

definition run_callback :: "env \<Rightarrow> callback \<Rightarrow> unit action" where
  "run_callback ev cb =
     (case cb of
        OutputCallback c \<Rightarrow> output_callback ev c
      | ToolOutputCallback r tid \<Rightarrow> tool_output_callback ev r tid
      | ApiResponseCallback rq rs err \<Rightarrow> api_response_callback ev rq rs err)"

text \<open>Running the loop: each callback it calls acts on the session.\<close>

primrec run_loop_run :: "env \<Rightarrow> loop_run \<Rightarrow> (pyval list) action" where
  "run_loop_run ev (Return ms) = (\<lambda>s. (Inr ms, s))"
| "run_loop_run ev (Raise e) = (\<lambda>s. (Inl e, s))"
| "run_loop_run ev (Call cb k) =
     (\<lambda>s. case run_callback ev cb s of
             (Inl e, s1) \<Rightarrow> run_loop_run ev (k (Some e)) s1
           | (Inr _, s1) \<Rightarrow> run_loop_run ev (k None) s1)"

definition user_message :: "string \<Rightarrow> (string \<times> pyval) list" where
  "user_message user_input =
     [(''role'', PStr ''user''),
      (''content'', PList [PDict [(''type'', PStr ''text''), (''text'', PStr user_input)]])]"

definition loop_arguments :: "session \<Rightarrow> loop_args" where
  "loop_arguments s =
     \<lparr>arg_system_prompt_suffix = custom_system_prompt s,
      arg_model = model s,
      arg_provider = provider s,
      arg_messages = messages s,
      arg_api_key = api_key s,
      arg_only_n_most_recent_images = only_n_most_recent_images s\<rparr>"

definition process_user_input :: "env \<Rightarrow> string \<Rightarrow> unit action" where
  "process_user_input ev user_input s =
     (let message = user_message user_input;
          s1 = s\<lparr>messages := messages s @ [PDict message]\<rparr>
      in case log_user_input (clock ev) (CDict message) s1 of
           (Inl e, s2) \<Rightarrow> (Inl e, s2)
         | (Inr _, s2) \<Rightarrow>
             (case run_loop_run ev (sampling_loop ev (loop_arguments s2)) s2 of
                (Inr ms, s3) \<Rightarrow> (Inr (), s3\<lparr>messages := ms\<rparr>)
              | (Inl e, s3) \<Rightarrow>
                  if is_instance e ''Exception''
                  then (Inr (), print (CHR 0x0A # ''Error: '' @ exn_str e) s3)
                  else (Inl e, s3)))"

definition show_settings :: "env \<Rightarrow> session \<Rightarrow> session" where
  "show_settings ev s =
     (let s1 = print (CHR 0x0A # ''Current Settings:'') s;
          s2 = print (''API Provider: '' @ provider_value ev (provider s1)) s1;
          s3 = print (''Model: '' @ model s2) s2;
          s4 = print (''Only N Most Recent Images: '' @
                      show_int (only_n_most_recent_images s3)) s3;
          s5 = print (''Hide Images: '' @ (if hide_images s4 then ''True'' else ''False'')) s4
      in if custom_system_prompt s5 \<noteq> []
         then print (''Custom System Prompt: '' @ custom_system_prompt s5) s5
         else s5)"

text \<open>
  \<open>configure_settings\<close>, one definition for each of its commented parts. In the first,
  \<open>int(choice)\<close> is outside any \<open>try\<close>: a \<open>choice\<close> that \<open>isdigit\<close> accepts and \<open>int\<close>
  rejects raises \<open>ValueError\<close>.
\<close>

fun print_providers :: "env \<Rightarrow> nat \<Rightarrow> provider list \<Rightarrow> session \<Rightarrow> session" where
  "print_providers ev i [] s = s"
| "print_providers ev i (p # ps) s =
     print_providers ev (Suc i) ps
       (print (show_nat (i + 1) @ ''. '' @ provider_value ev p) s)"

definition configure_provider :: "env \<Rightarrow> unit action" where
  "configure_provider ev s =
     (let s1 = print (CHR 0x0A # ''Available API Providers:'') s;
          s2 = print_providers ev 0 APIProvider s1
      in and_then (py_input ''Select API provider (or press Enter to keep current): '')
           (\<lambda>choice s3.
              if py_isdigit choice then
                (case py_int choice of
                   None \<Rightarrow>
                     (Inl (ValueError (''invalid literal for int() with base 10: '' @
                                       [CHR 0x27] @ choice @ [CHR 0x27])), s3)
                 | Some n \<Rightarrow>
                     if 1 \<le> n \<and> n \<le> int (length APIProvider) then
                       (let p = APIProvider ! nat (n - 1)
                        in (Inr (), s3\<lparr>provider := p,
                                       model := PROVIDER_TO_DEFAULT_MODEL_NAME ev p\<rparr>))
                     else (Inr (), s3))
              else (Inr (), s3)) s2)"

definition configure_model :: "unit action" where
  "configure_model s =
     and_then
       (py_input (CHR 0x0A # ''Enter model name (current: '' @ model s @
                  '', press Enter to keep): ''))
       (\<lambda>new_model s1.
          if new_model \<noteq> [] then (Inr (), s1\<lparr>model := new_model\<rparr>) else (Inr (), s1)) s"

definition configure_api_key :: "unit action" where
  "configure_api_key s =
     (if provider s = ANTHROPIC then
        and_then
          (py_input (CHR 0x0A # ''Enter Anthropic API key (press Enter to keep current): ''))
          (\<lambda>new_key s1.
             if new_key \<noteq> []
             then (Inr (), save_to_storage ''api_key'' new_key (s1\<lparr>api_key := new_key\<rparr>))
             else (Inr (), s1)) s
      else (Inr (), s))"

definition configure_images :: "unit action" where
  "configure_images s =
     (case py_input
             (CHR 0x0A #
              ''Enter number of most recent images to keep (press Enter to keep current): '') s
      of
        (Inl e, s1) \<Rightarrow>
          if is_instance e ''ValueError''
          then (Inr (), print ''Invalid input, keeping current value'' s1)
          else (Inl e, s1)
      | (Inr n_images, s1) \<Rightarrow>
          if n_images \<noteq> [] then
            (case py_int n_images of
               Some n \<Rightarrow> (Inr (), s1\<lparr>only_n_most_recent_images := n\<rparr>)
             | None \<Rightarrow> (Inr (), print ''Invalid input, keeping current value'' s1))
          else (Inr (), s1))"

definition configure_hide_images :: "unit action" where
  "configure_hide_images =
     and_then
       (py_input (CHR 0x0A # ''Hide images? (y/n, press Enter to keep current): ''))
       (\<lambda>answer s1.
          (let hide = py_lower answer
           in if hide = ''y'' \<or> hide = ''n''
              then (Inr (), s1\<lparr>hide_images := (hide = ''y'')\<rparr>)
              else (Inr (), s1)))"

definition configure_system_prompt :: "unit action" where
  "configure_system_prompt s =
     and_then (py_input [])
       (\<lambda>new_prompt s1.
          if new_prompt \<noteq> [] then
            (if py_lower new_prompt = ''clear''
             then (Inr (), save_to_storage ''system_prompt'' []
                             (s1\<lparr>custom_system_prompt := []\<rparr>))
             else (Inr (), save_to_storage ''system_prompt'' new_prompt
                             (s1\<lparr>custom_system_prompt := new_prompt\<rparr>)))
          else (Inr (), s1))
       (print (CHR 0x0A #
          ''Enter custom system prompt (press Enter to keep current, or 'clear' to remove):'') s)"

definition configure_settings :: "env \<Rightarrow> unit action" where
  "configure_settings ev s =
     and_then (configure_provider ev)
       (\<lambda>_. and_then configure_model
          (\<lambda>_. and_then configure_api_key
             (\<lambda>_. and_then configure_images
                (\<lambda>_. and_then configure_hide_images
                   (\<lambda>_. configure_system_prompt)))))
       (print (CHR 0x0A # ''Configure Settings:'') s)"

text \<open>
  The body of the \<open>try\<close> in \<open>run\<close>: the result \<open>True\<close> is the \<open>break\<close>, \<open>False\<close> the end of
  the body or a \<open>continue\<close>.
\<close>

definition print_help :: "session \<Rightarrow> session" where
  "print_help s =
     print '':quit    - Exit the program''
       (print '':clear   - Clear conversation history''
          (print '':settings - Show current settings''
             (print '':config  - Configure settings''
                (print '':help    - Show this help message''
                   (print (CHR 0x0A # ''Available commands:'') s)))))"

definition loop_body :: "env \<Rightarrow> bool action" where
  "loop_body ev =
     and_then (py_input (CHR 0x0A # ''Enter your request (or command): ''))
       (\<lambda>line s.
          case py_strip line of
            [] \<Rightarrow> (Inr False, s)
          | c # cs \<Rightarrow>
              if c = CHR '':'' then
                (let command = py_lower cs
                 in if command = ''quit'' \<or> command = ''exit'' then (Inr True, s)
                    else if command = ''help'' then (Inr False, print_help s)
                    else if command = ''config'' then
                      and_then (configure_settings ev) (\<lambda>_ s1. (Inr False, s1)) s
                    else if command = ''settings'' then (Inr False, show_settings ev s)
                    else if command = ''clear'' then
                      (Inr False, print ''Conversation history cleared'' (s\<lparr>messages := []\<rparr>))
                    else (Inr False, print (''Unknown command: '' @ command) s))
              else and_then (process_user_input ev (c # cs)) (\<lambda>_ s1. (Inr False, s1)) s)"

text \<open>
  One turn of \<open>while True\<close> with its two handlers. \<open>Escape e\<close>: the exception \<open>e\<close> leaves
  \<open>run\<close> (it is caught by neither handler, or it was raised inside the second handler).
\<close>

datatype control = Continue | Break | Escape exn

definition run_iteration :: "env \<Rightarrow> session \<Rightarrow> control \<times> session" where
  "run_iteration ev s =
     (case loop_body ev s of
        (Inr b, s1) \<Rightarrow> (if b then Break else Continue, s1)
      | (Inl e, s1) \<Rightarrow>
          if is_instance e ''KeyboardInterrupt''
          then (Continue, print (CHR 0x0A # ''Use :quit to exit'') s1)
          else if is_instance e ''Exception'' then
            (case log_error (clock ev) e (print (CHR 0x0A # ''Error: '' @ exn_str e) s1) of
               (Inl e2, s2) \<Rightarrow> (Escape e2, s2)
             | (Inr _, s2) \<Rightarrow> (Continue, s2))
          else (Escape e, s1))"

text \<open>
  The loop may run forever, so it gets fuel: one unit for each turn. \<open>Running\<close> is the
  loop still going when the fuel is used up.
\<close>

datatype outcome = Returned | Raised exn | Running

fun run_loop :: "env \<Rightarrow> nat \<Rightarrow> session \<Rightarrow> outcome \<times> session" where
  "run_loop ev 0 s = (Running, s)"
| "run_loop ev (Suc fuel) s =
     (case run_iteration ev s of
        (Continue, s1) \<Rightarrow> run_loop ev fuel s1
      | (Break, s1) \<Rightarrow> (Returned, s1)
      | (Escape e, s1) \<Rightarrow> (Raised e, s1))"

definition banner :: "session \<Rightarrow> session" where
  "banner s =
     print ''Type ':help' for available commands''
       (print ''Computer Use Demo - Command Line Interface'' s)"

definition run :: "env \<Rightarrow> nat \<Rightarrow> session \<Rightarrow> outcome \<times> session" where
  "run ev fuel s =
     (let s1 = banner s
      in case validate_auth ev s1 of
           Some err \<Rightarrow> (Returned, print (CHR 0x0A # ''Error: '' @ err) s1)
         | None \<Rightarrow> run_loop ev fuel s1)"

section \<open>Notions used to state the properties\<close>

text \<open>The session once the \<open>input\<close> call of \<open>run\<close> has taken the first event of the input.\<close>

definition line_read :: "session \<Rightarrow> session" where
  "line_read s =
     s\<lparr>stdout := stdout s @ [Prompt (CHR 0x0A # ''Enter your request (or command): '')],
       stdin := tl (stdin s)\<rparr>"

text \<open>
  The session once \<open>run\<close> has met the end of the input: the prompt is written, the
  handler has printed the \<open>EOFError\<close>, and \<open>log_error\<close> has read the clock.
\<close>

definition input_closed :: "session \<Rightarrow> session" where
  "input_closed s =
     (line_read s)
       \<lparr>stdout := stdout (line_read s) @ [Print (CHR 0x0A # ''Error: EOF when reading a line'')],
        clock_reads := Suc (clock_reads s)\<rparr>"

text \<open>What \<open>show_settings\<close> prints for a session.\<close>

definition settings_shown :: "env \<Rightarrow> session \<Rightarrow> out list" where
  "settings_shown ev s =
     [Print (CHR 0x0A # ''Current Settings:''),
      Print (''API Provider: '' @ provider_value ev (provider s)),
      Print (''Model: '' @ model s),
      Print (''Only N Most Recent Images: '' @ show_int (only_n_most_recent_images s)),
      Print (''Hide Images: '' @ (if hide_images s then ''True'' else ''False''))] @
     (if custom_system_prompt s \<noteq> []
      then [Print (''Custom System Prompt: '' @ custom_system_prompt s)] else [])"

subsection \<open>A concrete environment and session\<close>

text \<open>
  Two sampling loops to run the driver on. \<open>silent_loop\<close> calls no callback: it raises
  \<open>RuntimeError\<close> when the last message is the user's \<open>boom\<close>, and otherwise returns the
  history with a reply. \<open>echo_loop\<close> does the same after handing a text block to the
  output callback. The session is the one \<open>__init__\<close> builds: empty history, ten
  images kept, images shown.
\<close>

definition reply :: pyval where
  "reply = PDict [(''role'', PStr ''assistant''),
                  (''content'', PList [PDict [(''type'', PStr ''text''), (''text'', PStr ''ok'')]])]"

definition silent_loop :: "loop_args \<Rightarrow> loop_run" where
  "silent_loop a =
     (case rev (arg_messages a) of
        [] \<Rightarrow> Return [reply]
      | m # _ \<Rightarrow>
          if m = PDict (user_message ''boom'')
          then Raise (std_exn ''RuntimeError'' ''boom'')
          else Return (arg_messages a @ [reply]))"

definition echo_loop :: "loop_args \<Rightarrow> loop_run" where
  "echo_loop a =
     Call (OutputCallback (PDict [(''type'', PStr ''text''), (''text'', PStr ''ok'')]))
       (\<lambda>r. case r of Some e \<Rightarrow> Raise e | None \<Rightarrow> silent_loop a)"

definition demo_env :: env where
  "demo_env =
     \<lparr>clock = (\<lambda>k. ''2025-01-01T00:00:0'' @ show_nat k),
      PROVIDER_TO_DEFAULT_MODEL_NAME = (\<lambda>p. ''demo-model''),
      provider_value =
        (\<lambda>p. case p of ANTHROPIC \<Rightarrow> ''anthropic'' | BEDROCK \<Rightarrow> ''bedrock''
              | VERTEX \<Rightarrow> ''vertex''),
      sampling_loop = silent_loop,
      aws_credentials = False,
      CLOUD_ML_REGION = None,
      google_credentials = False\<rparr>"

definition demo_session :: session where
  "demo_session =
     \<lparr>log_file = [], clock_reads = 0,
      messages = [], api_key = ''sk-demo'', provider = ANTHROPIC, model = ''demo-model'',
      custom_system_prompt = [], only_n_most_recent_images = 10, hide_images = False,
      stdin = [], stdout = [], storage = Map.empty\<rparr>"

section \<open>Properties of the logger\<close>

text \<open>
  Whatever it is asked to log, \<open>log_entry\<close> reads the clock, raises the \<open>TypeError\<close> of
  the \<open>isinstance\<close> test and leaves the log file as it was.
\<close>

lemma serialize_content_raises:
  "serialize_content c = Inl typed_dict_error"
  by (simp add: serialize_content_def isinstance_BetaMessageParam_def)

lemma log_entry_raises:
  "log_entry clk ty c md lg =
     (Inl typed_dict_error, lg\<lparr>clock_reads := Suc (clock_reads lg)\<rparr>)"
  by (simp add: log_entry_def to_dict_def serialize_content_raises Let_def)

lemma typed_dict_error_facts:
  "is_instance typed_dict_error ''Exception''"
  "\<not> is_instance typed_dict_error ''KeyboardInterrupt''"
  "exn_str typed_dict_error = ''TypedDict does not support instance and class checks''"
  "exn_class typed_dict_error = ''TypeError''"
  by (simp_all add: typed_dict_error_def TypeError_def std_exn_def is_instance_def)

lemma EOFError_facts:
  "is_instance EOFError ''Exception''"
  "\<not> is_instance EOFError ''KeyboardInterrupt''"
  "exn_str EOFError = ''EOF when reading a line''"
  by (simp_all add: EOFError_def std_exn_def is_instance_def)

subsection \<open>C1: a tool result with an image\<close>

text \<open>
  Claim C1: for every \<open>ToolResult\<close> that is logged, the \<open>base64_image\<close> field of the
  serialized content is a boolean that tells only whether an image payload is present,
  and the bytes of the image never appear in the entry.

  The branch of \<open>_serialize_content\<close> for a \<open>ToolResult\<close> builds that content, with
  \<open>bool(self.content.base64_image)\<close>, but it stands behind the \<open>isinstance\<close> test on the
  \<open>TypedDict\<close> and is never reached. The theorem runs the code on a tool result that
  holds an image: serializing it raises \<open>TypeError\<close>, \<open>log_tool_result\<close> raises the same
  exception, and no entry, with or without a flag, is written to the log.
\<close>

theorem tool_result_is_not_serialized:
  "serialize_content
     (CToolResult \<lparr>output_text = Some ''done'', error = None,
                   base64_image = Some ''iVBORw0KGgo='', system = None\<rparr>) =
     Inl (TypeError ''TypedDict does not support instance and class checks'')
   \<and> log_tool_result (\<lambda>k. ''2025-01-01T00:00:00'')
       \<lparr>output_text = Some ''done'', error = None,
        base64_image = Some ''iVBORw0KGgo='', system = None\<rparr>
       (PStr ''toolu_01'') \<lparr>log_file = [], clock_reads = 0\<rparr> =
     (Inl (TypeError ''TypedDict does not support instance and class checks''),
      \<lparr>log_file = [], clock_reads = 1\<rparr>)"
  by (simp add: log_tool_result_def log_entry_raises serialize_content_raises
      typed_dict_error_def)

subsection \<open>C4: one line for each call\<close>

text \<open>
  Claim C4: every call into the logger (\<open>log_entry\<close> and each \<open>log_*\<close> wrapper) appends
  exactly one JSON line, ended by a line feed, to the log file of the session; the lines
  already there are never rewritten or deleted, and the file is never read back.

  \<open>log_entry\<close> opens the file for appending and writes one line,
  \<open>json.dumps(entry.to_dict()) + '\n'\<close>, but \<open>to_dict\<close> raises before the file is opened.
  The theorem runs the code on the message of a user turn, a dict, and on an exception
  given to \<open>log_error\<close>, on a log that holds one line: both calls raise \<open>TypeError\<close> and
  append nothing. The line already there is kept.
\<close>

theorem logger_call_appends_nothing:
  "log_user_input (\<lambda>k. ''2025-01-01T00:00:00'') (CDict (user_message ''hello''))
     \<lparr>log_file = ''{}'' @ [CHR 0x0A], clock_reads = 0\<rparr> =
     (Inl (TypeError ''TypedDict does not support instance and class checks''),
      \<lparr>log_file = ''{}'' @ [CHR 0x0A], clock_reads = 1\<rparr>)
   \<and> log_error (\<lambda>k. ''2025-01-01T00:00:00'') (ValueError ''bad value'')
       \<lparr>log_file = ''{}'' @ [CHR 0x0A], clock_reads = 0\<rparr> =
     (Inl (TypeError ''TypedDict does not support instance and class checks''),
      \<lparr>log_file = ''{}'' @ [CHR 0x0A], clock_reads = 1\<rparr>)"
  by (simp add: log_user_input_def log_error_def log_entry_raises typed_dict_error_def)

subsection \<open>C8: the entry of an API interaction\<close>

text \<open>
  Claim C8: for every call of \<open>log_api_interaction\<close> with a request, a response and an
  optional error, the entry logged has the type \<open>api_interaction\<close> and the content
  \<open>{request, response, error}\<close>, where request and response are a structured dump when
  there is one and the string form otherwise, and the error is its description when one
  is given and absent otherwise.

  \<open>log_api_interaction\<close> builds that content (\<open>__dict__\<close> or \<open>str\<close> of the request and of
  the response, \<open>str(error)\<close> or \<open>None\<close>) and hands it to \<open>log_entry\<close>, where the
  \<open>isinstance\<close> test raises. The theorem runs the code on a request that has a
  \<open>__dict__\<close> and a response that has none, without an error: the call raises \<open>TypeError\<close>
  and no entry is logged.
\<close>

theorem api_interaction_is_not_logged:
  "log_api_interaction (\<lambda>k. ''2025-01-01T00:00:00'')
     \<lparr>obj_dict = Some [(''method'', PStr ''POST'')], obj_str = ''<Request>''\<rparr>
     \<lparr>obj_dict = None, obj_str = ''<Response [200 OK]>''\<rparr>
     None \<lparr>log_file = [], clock_reads = 0\<rparr> =
     (Inl (TypeError ''TypedDict does not support instance and class checks''),
      \<lparr>log_file = [], clock_reads = 1\<rparr>)"
  by (simp add: log_api_interaction_def log_entry_raises typed_dict_error_def Let_def)

section \<open>Properties of the driver\<close>

subsection \<open>One turn of the loop\<close>

lemma loop_body_line:
  assumes "stdin s = Line line # rest"
  shows "loop_body ev s =
     (case py_strip line of
        [] \<Rightarrow> (Inr False, line_read s)
      | c # cs \<Rightarrow>
          if c = CHR '':'' then
            (let command = py_lower cs
             in if command = ''quit'' \<or> command = ''exit'' then (Inr True, line_read s)
                else if command = ''help'' then (Inr False, print_help (line_read s))
                else if command = ''config'' then
                  and_then (configure_settings ev) (\<lambda>_ s1. (Inr False, s1)) (line_read s)
                else if command = ''settings'' then (Inr False, show_settings ev (line_read s))
                else if command = ''clear'' then
                  (Inr False, print ''Conversation history cleared''
                                (line_read s\<lparr>messages := []\<rparr>))
                else (Inr False, print (''Unknown command: '' @ command) (line_read s)))
          else and_then (process_user_input ev (c # cs)) (\<lambda>_ s1. (Inr False, s1))
                 (line_read s))"
  using assms
  by (simp add: loop_body_def and_then_def py_input_def line_read_def Let_def
      split: list.split)

lemma loop_body_raises:
  assumes "stdin s = InputRaises e # rest"
  shows "loop_body ev s = (Inl e, line_read s)"
  using assms by (simp add: loop_body_def and_then_def py_input_def line_read_def)

lemma loop_body_eof:
  assumes "stdin s = []"
  shows "loop_body ev s = (Inl EOFError, line_read s)"
  using assms by (simp add: loop_body_def and_then_def py_input_def line_read_def)

text \<open>
  A user turn: the message is appended to the history, then \<open>log_user_input\<close> raises,
  before the \<open>try\<close> that surrounds the sampling loop.
\<close>

lemma process_user_input_raises:
  "process_user_input ev user_input s =
     (Inl typed_dict_error,
      s\<lparr>messages := messages s @ [PDict (user_message user_input)],
        clock_reads := Suc (clock_reads s)\<rparr>)"
  by (simp add: process_user_input_def log_user_input_def log_entry_raises Let_def)

text \<open>
  The second handler of \<open>run\<close> prints the exception and calls \<open>log_error\<close>, which raises
  inside the handler: that exception leaves \<open>run\<close>.
\<close>

lemma run_iteration_exception:
  assumes "loop_body ev s = (Inl e, s1)"
    and "\<not> is_instance e ''KeyboardInterrupt''" and "is_instance e ''Exception''"
  shows "run_iteration ev s =
     (Escape typed_dict_error,
      s1\<lparr>stdout := stdout s1 @ [Print (CHR 0x0A # ''Error: '' @ exn_str e)],
         clock_reads := Suc (clock_reads s1)\<rparr>)"
  using assms
  by (simp add: run_iteration_def log_error_def log_entry_raises print_def)

lemma user_turn_ends_run:
  assumes "stdin s = Line line # rest" and "py_strip line = c # cs" and "c \<noteq> CHR '':''"
  shows "run_iteration ev s =
     (Escape typed_dict_error,
      s\<lparr>stdin := rest,
        stdout := stdout s @
          [Prompt (CHR 0x0A # ''Enter your request (or command): ''),
           Print (CHR 0x0A # ''Error: TypedDict does not support instance and class checks'')],
        messages := messages s @ [PDict (user_message (c # cs))],
        clock_reads := Suc (Suc (clock_reads s))\<rparr>)"
proof -
  have "loop_body ev s =
      (Inl typed_dict_error,
       (line_read s)\<lparr>messages := messages (line_read s) @ [PDict (user_message (c # cs))],
                     clock_reads := Suc (clock_reads (line_read s))\<rparr>)"
    using assms
    by (simp add: loop_body_line [OF assms(1)] and_then_def process_user_input_raises)
  from run_iteration_exception [OF this typed_dict_error_facts(2) typed_dict_error_facts(1)]
  show ?thesis
    using assms(1) by (simp add: typed_dict_error_facts line_read_def)
qed

lemma end_of_input_ends_run:
  assumes "stdin s = [] \<or> stdin s = InputRaises EOFError # rest"
  shows "run_iteration ev s = (Escape typed_dict_error, input_closed s)"
proof -
  have "loop_body ev s = (Inl EOFError, line_read s)"
    using assms loop_body_eof [of s ev] loop_body_raises [of s EOFError rest ev] by auto
  from run_iteration_exception [OF this EOFError_facts(2) EOFError_facts(1)]
  show ?thesis
    by (simp add: EOFError_facts input_closed_def line_read_def)
qed

subsection \<open>C5: an exception of the sampling loop\<close>

text \<open>
  Claim C5: if the sampling loop raises any exception during a user turn, the exception
  is caught and reported, the session returns to Idle and continues, and the history is
  left in its last known-good state, the user message just appended still in it.

  \<open>process_user_input\<close> has a \<open>try\<close> around the sampling loop, whose handler prints the
  exception and returns. The call of \<open>log_user_input\<close> stands before that \<open>try\<close> and
  raises, so the sampling loop is not called. The theorem runs the code on the user line
  \<open>boom\<close>, on which the sampling loop of the environment would raise, followed by a
  \<open>:help\<close> command. Whatever the sampling loop is, \<open>process_user_input\<close> raises
  \<open>TypeError\<close> with the user message in the history; the handler of \<open>run\<close> prints it and
  raises again in \<open>log_error\<close>, and \<open>run\<close> ends with that exception: the session does not
  continue, and the command that follows is not read.
\<close>

theorem user_turn_ends_the_session:
  "process_user_input (demo_env\<lparr>sampling_loop := loop\<rparr>) ''boom'' demo_session =
     (Inl (TypeError ''TypedDict does not support instance and class checks''),
      demo_session\<lparr>messages := [PDict (user_message ''boom'')], clock_reads := 1\<rparr>)
   \<and> run_loop (demo_env\<lparr>sampling_loop := loop\<rparr>) 2
       (demo_session\<lparr>stdin := [Line ''boom'', Line '':help'']\<rparr>) =
     (Raised (TypeError ''TypedDict does not support instance and class checks''),
      demo_session
        \<lparr>stdin := [Line '':help''],
         stdout :=
           [Prompt (CHR 0x0A # ''Enter your request (or command): ''),
            Print (CHR 0x0A # ''Error: TypedDict does not support instance and class checks'')],
         messages := [PDict (user_message ''boom'')],
         clock_reads := 2\<rparr>)"
proof -
  let ?ev = "demo_env\<lparr>sampling_loop := loop\<rparr>"
  let ?s = "demo_session\<lparr>stdin := [Line ''boom'', Line '':help'']\<rparr>"
  have strip: "py_strip ''boom'' = CHR ''b'' # ''oom''"
    by code_simp
  have "stdin ?s = Line ''boom'' # [Line '':help'']"
    by simp
  from user_turn_ends_run [OF this strip, where ev = ?ev]
  have "run_loop ?ev 2 ?s =
      (Raised typed_dict_error,
       ?s\<lparr>stdin := [Line '':help''],
          stdout := stdout ?s @
            [Prompt (CHR 0x0A # ''Enter your request (or command): ''),
             Print (CHR 0x0A # ''Error: TypedDict does not support instance and class checks'')],
          messages := messages ?s @ [PDict (user_message ''boom'')],
          clock_reads := Suc (Suc (clock_reads ?s))\<rparr>)"
    by (simp add: numeral_2_eq_2)
  then show ?thesis
    by (simp add: process_user_input_raises typed_dict_error_def demo_session_def)
qed

subsection \<open>C2: the log of three turns\<close>

text \<open>
  Claim C2: for any sequence of three user inputs where the sampling loop raises an
  exception on the second, the log file holds the entries \<open>user_input\<close>, \<open>user_input\<close>,
  \<open>error\<close>, \<open>user_input\<close> in this order: an error entry is appended for the failing turn,
  and the logger is invoked for every turn.

  \<open>run\<close> calls \<open>log_user_input\<close> in each user turn and \<open>log_error\<close> in its handler, and
  both raise. The theorem runs the code on the three user lines \<open>a\<close>, \<open>boom\<close>, \<open>c\<close>, the
  sampling loop raising on \<open>boom\<close>: the first turn ends \<open>run\<close> with \<open>TypeError\<close>, the log
  file is empty, and the second and the third line are not read.
\<close>

theorem three_turns_leave_an_empty_log:
  "run_loop demo_env 3 (demo_session\<lparr>stdin := [Line ''a'', Line ''boom'', Line ''c'']\<rparr>) =
     (Raised (TypeError ''TypedDict does not support instance and class checks''),
      \<lparr>log_file = [], clock_reads = 2,
       messages = [PDict (user_message ''a'')], api_key = ''sk-demo'',
       provider = ANTHROPIC, model = ''demo-model'', custom_system_prompt = [],
       only_n_most_recent_images = 10, hide_images = False,
       stdin = [Line ''boom'', Line ''c''],
       stdout =
         [Prompt (CHR 0x0A # ''Enter your request (or command): ''),
          Print (CHR 0x0A # ''Error: TypedDict does not support instance and class checks'')],
       storage = Map.empty\<rparr>)"
proof -
  let ?s = "demo_session\<lparr>stdin := [Line ''a'', Line ''boom'', Line ''c'']\<rparr>"
  have strip: "py_strip ''a'' = CHR ''a'' # []"
    by code_simp
  have "stdin ?s = Line ''a'' # [Line ''boom'', Line ''c'']"
    by simp
  from user_turn_ends_run [OF this strip, where ev = demo_env]
  show ?thesis
    by (simp add: numeral_3_eq_3 typed_dict_error_def demo_session_def)
qed

subsection \<open>Stripping and lower-casing a command\<close>

lemma lower_char_space: "is_space (lower_char c) = is_space c"
proof -
  have "of_char (char_of (of_char c + 32 :: nat)) = (of_char c + 32 :: nat)"
    if "(of_char c :: nat) \<le> 0xDE"
    using that by simp
  then show ?thesis
    unfolding is_space_def lower_char_def Let_def by auto
qed

lemma lower_char_idem: "lower_char (lower_char c) = lower_char c"
proof -
  have "of_char (char_of (of_char c + 32 :: nat)) = (of_char c + 32 :: nat)"
    if "(of_char c :: nat) \<le> 0xDE"
    using that by simp
  then show ?thesis
    unfolding lower_char_def Let_def by auto
qed

lemma py_lower_idem: "py_lower (py_lower s) = py_lower s"
  by (simp add: py_lower_def lower_char_idem)

lemma py_strip_ends:
  assumes "py_strip s = x # xs"
  shows "\<not> is_space x \<and> \<not> is_space (last (x # xs))"
proof -
  let ?d = "dropWhile is_space s"
  from assms have r: "rev (dropWhile is_space (rev ?d)) = x # xs" by (simp add: py_strip_def)
  then have ne: "dropWhile is_space (rev ?d) \<noteq> []" by auto
  then have "\<not> is_space (hd (dropWhile is_space (rev ?d)))" by (rule hd_dropWhile)
  moreover have "last (x # xs) = hd (dropWhile is_space (rev ?d))"
    using r ne by (metis hd_rev rev_rev_ident)
  ultimately have l: "\<not> is_space (last (x # xs))" by simp
  have "?d \<noteq> []"
  proof
    assume "?d = []"
    then have "dropWhile is_space (rev ?d) = []" by (simp only: rev.simps dropWhile.simps)
    with ne show False by blast
  qed
  then have h: "\<not> is_space (hd ?d)" by (rule hd_dropWhile)
  obtain ys where ys: "rev ?d = ys @ dropWhile is_space (rev ?d)"
    by (metis takeWhile_dropWhile_id)
  then have "?d = rev (dropWhile is_space (rev ?d)) @ rev ys"
    by (metis rev_append rev_rev_ident)
  with r have "?d = (x # xs) @ rev ys" by simp
  then have "hd ?d = x" by simp
  with h l show ?thesis by simp
qed

lemma py_strip_fixed:
  assumes "\<not> is_space (hd s)" "\<not> is_space (last s)" "s \<noteq> []"
  shows "py_strip s = s"
proof -
  have 1: "dropWhile is_space s = s" using assms(1,3) by (cases s) auto
  have "hd (rev s) = last s" using assms(3) by (simp add: hd_rev)
  then have "dropWhile is_space (rev s) = rev s"
    using assms(2) by (simp add: dropWhile_eq_self_iff)
  with 1 show ?thesis by (simp add: py_strip_def)
qed

lemma py_strip_lower_command:
  assumes "py_strip line = CHR '':'' # cmd"
  shows "py_strip (CHR '':'' # py_lower cmd) = CHR '':'' # py_lower cmd"
proof (rule py_strip_fixed)
  show "\<not> is_space (hd (CHR '':'' # py_lower cmd))" by (simp add: is_space_def)
  from py_strip_ends [OF assms] have l: "\<not> is_space (last (CHR '':'' # cmd))" by simp
  show "\<not> is_space (last (CHR '':'' # py_lower cmd))"
  proof (cases "cmd = []")
    case True
    then show ?thesis by (simp add: py_lower_def is_space_def)
  next
    case False
    with l have "\<not> is_space (last cmd)" by simp
    with False show ?thesis
      by (simp add: py_lower_def last_map lower_char_space)
  qed
qed simp

subsection \<open>C10: commands are matched without regard to case\<close>

text \<open>
  Claim C10. For every input line that, once stripped, begins with a colon, the driver
  lower-cases the text after the colon before comparing it: a turn of the loop on the
  line does exactly what it does on the colon followed by the lower-cased text, so that
  \<open>:QUIT\<close> or \<open>:Clear\<close> behave as \<open>:quit\<close> and \<open>:clear\<close>.
\<close>

theorem commands_ignore_case:
  assumes "py_strip line = CHR '':'' # cmd"
  shows "run_iteration ev (s\<lparr>stdin := Line line # rest\<rparr>) =
         run_iteration ev (s\<lparr>stdin := Line (CHR '':'' # py_lower cmd) # rest\<rparr>)"
proof -
  have lr: "line_read (s\<lparr>stdin := Line line # rest\<rparr>) =
            line_read (s\<lparr>stdin := Line (CHR '':'' # py_lower cmd) # rest\<rparr>)"
    by (simp add: line_read_def)
  have "loop_body ev (s\<lparr>stdin := Line line # rest\<rparr>) =
        loop_body ev (s\<lparr>stdin := Line (CHR '':'' # py_lower cmd) # rest\<rparr>)"
    by (simp add: loop_body_line [where rest = rest] assms py_strip_lower_command [OF assms]
        py_lower_idem line_read_def Let_def)
  then show ?thesis by (simp add: run_iteration_def)
qed


theorem commands_ignore_case_witness:
  "py_strip '' :QuIt  '' = CHR '':'' # ''QuIt''
   \<and> py_lower ''QuIt'' = ''quit''
   \<and> run_iteration demo_env (demo_session\<lparr>stdin := Line '' :QuIt  '' # [Line ''x'']\<rparr>) =
     run_iteration demo_env (demo_session\<lparr>stdin := Line '':quit'' # [Line ''x'']\<rparr>)
   \<and> py_strip '':Clear'' = CHR '':'' # ''Clear''
   \<and> py_lower ''Clear'' = ''clear''
   \<and> run_iteration demo_env (demo_session\<lparr>stdin := Line '':Clear'' # []\<rparr>) =
     run_iteration demo_env (demo_session\<lparr>stdin := Line '':clear'' # []\<rparr>)"
proof -
  have h1: "py_strip '' :QuIt  '' = CHR '':'' # ''QuIt''" by code_simp
  have h2: "py_strip '':Clear'' = CHR '':'' # ''Clear''" by code_simp
  have l1: "py_lower ''QuIt'' = ''quit''" by code_simp
  have l2: "py_lower ''Clear'' = ''clear''" by code_simp
  from commands_ignore_case [OF h1, where ev = demo_env and s = demo_session and rest = "[Line ''x'']"]
       commands_ignore_case [OF h2, where ev = demo_env and s = demo_session and rest = "[]"]
  show ?thesis using h1 h2 l1 l2 by simp
qed

subsection \<open>C3: what ends the session\<close>

text \<open>
  Claim C3: when the driver is idle and reading the input yields the end of the input,
  or the command \<open>:quit\<close> or \<open>:exit\<close>, the session is terminated: the loop stops and no
  further input is processed.

  On \<open>:quit\<close> or \<open>:exit\<close>, in any letter case and with white space around the line, the turn
  is the \<open>break\<close> and the loop returns, for every fuel left. At the end of the input, be
  it an empty input or an \<open>EOFError\<close> raised by \<open>input\<close> with events still behind it, the
  handler of \<open>run\<close> prints the exception and \<open>log_error\<close> raises inside the handler: the
  loop stops with that exception, which leaves \<open>run\<close>. In both cases the events behind
  the one read stay unread, and the history and the log are as they were.
\<close>

theorem quit_and_end_of_input_terminate:
  "(stdin s = Line line # rest \<and> py_strip line = CHR '':'' # cmd
      \<and> (py_lower cmd = ''quit'' \<or> py_lower cmd = ''exit'') \<longrightarrow>
      run_iteration ev s = (Break, line_read s)
      \<and> run_loop ev (Suc fuel) s = (Returned, line_read s)
      \<and> stdin (line_read s) = rest
      \<and> messages (line_read s) = messages s
      \<and> log_file (line_read s) = log_file s)
   \<and> (stdin s = [] \<or> stdin s = InputRaises EOFError # rest \<longrightarrow>
      run_iteration ev s =
        (Escape (TypeError ''TypedDict does not support instance and class checks''),
         input_closed s)
      \<and> run_loop ev (Suc fuel) s =
        (Raised (TypeError ''TypedDict does not support instance and class checks''),
         input_closed s)
      \<and> stdin (input_closed s) = tl (stdin s)
      \<and> messages (input_closed s) = messages s
      \<and> log_file (input_closed s) = log_file s)"
proof (intro conjI impI)
  assume a: "stdin s = Line line # rest \<and> py_strip line = CHR '':'' # cmd
      \<and> (py_lower cmd = ''quit'' \<or> py_lower cmd = ''exit'')"
  then have lb: "loop_body ev s = (Inr True, line_read s)"
    using loop_body_line [of s line rest ev] by (auto simp add: Let_def)
  then show it: "run_iteration ev s = (Break, line_read s)"
    by (simp add: run_iteration_def)
  then show "run_loop ev (Suc fuel) s = (Returned, line_read s)"
    by simp
  show "stdin (line_read s) = rest"
    using a by (simp add: line_read_def)
  show "messages (line_read s) = messages s"
    by (simp add: line_read_def)
  show "log_file (line_read s) = log_file s"
    by (simp add: line_read_def)
next
  assume a: "stdin s = [] \<or> stdin s = InputRaises EOFError # rest"
  from end_of_input_ends_run [OF a]
  show it: "run_iteration ev s =
      (Escape (TypeError ''TypedDict does not support instance and class checks''),
       input_closed s)"
    by (simp add: typed_dict_error_def)
  then show "run_loop ev (Suc fuel) s =
      (Raised (TypeError ''TypedDict does not support instance and class checks''),
       input_closed s)"
    by simp
  show "stdin (input_closed s) = tl (stdin s)"
    by (simp add: input_closed_def line_read_def)
  show "messages (input_closed s) = messages s"
    by (simp add: input_closed_def line_read_def)
  show "log_file (input_closed s) = log_file s"
    by (simp add: input_closed_def line_read_def)
qed

theorem quit_and_end_of_input_terminate_witness:
  "run_loop demo_env 5 (demo_session\<lparr>stdin := [Line '' :QUIT '', Line ''more'']\<rparr>) =
     (Returned, line_read (demo_session\<lparr>stdin := [Line '' :QUIT '', Line ''more'']\<rparr>))
   \<and> stdin (line_read (demo_session\<lparr>stdin := [Line '' :QUIT '', Line ''more'']\<rparr>)) =
       [Line ''more'']
   \<and> run_loop demo_env 5 (demo_session\<lparr>stdin := [InputRaises EOFError, Line ''more'']\<rparr>) =
     (Raised (TypeError ''TypedDict does not support instance and class checks''),
      input_closed (demo_session\<lparr>stdin := [InputRaises EOFError, Line ''more'']\<rparr>))
   \<and> stdin (input_closed (demo_session\<lparr>stdin := [InputRaises EOFError, Line ''more'']\<rparr>)) =
       [Line ''more'']
   \<and> log_file (input_closed (demo_session\<lparr>stdin := [InputRaises EOFError, Line ''more'']\<rparr>)) =
       []
   \<and> run_loop demo_env 5 demo_session =
     (Raised (TypeError ''TypedDict does not support instance and class checks''),
      input_closed demo_session)"
proof -
  let ?q = "demo_session\<lparr>stdin := [Line '' :QUIT '', Line ''more'']\<rparr>"
  let ?e = "demo_session\<lparr>stdin := [InputRaises EOFError, Line ''more'']\<rparr>"
  have strip: "py_strip '' :QUIT '' = CHR '':'' # ''QUIT''"
    by code_simp
  have low: "py_lower ''QUIT'' = ''quit''"
    by code_simp
  have q: "stdin ?q = Line '' :QUIT '' # [Line ''more'']"
    by simp
  have e: "stdin ?e = InputRaises EOFError # [Line ''more'']"
    by simp
  have n: "stdin demo_session = []"
    by (simp add: demo_session_def)
  have l: "log_file ?e = []"
    by (simp add: demo_session_def)
  from quit_and_end_of_input_terminate
         [where s = ?q and line = "'' :QUIT ''" and rest = "[Line ''more'']"
            and cmd = "''QUIT''" and ev = demo_env and fuel = 4]
       quit_and_end_of_input_terminate
         [where s = ?e and rest = "[Line ''more'']" and ev = demo_env and fuel = 4]
       quit_and_end_of_input_terminate
         [where s = demo_session and ev = demo_env and fuel = 4]
  show ?thesis
    using strip low q e n l by (simp add: eval_nat_numeral del: run_loop.simps)
qed

subsection \<open>C6: no API key, no session\<close>

text \<open>
  Claim C6. With the Anthropic provider and an empty API key, \<open>validate_auth\<close> returns a
  non-empty diagnostic, and \<open>run\<close> prints it and returns before the loop: whatever the
  fuel and whatever the sampling loop, no input is read, and the history and the log are
  as they were, so that no user turn is ever processed.
\<close>

theorem missing_api_key_stops_run:
  assumes "provider s = ANTHROPIC" and "api_key s = []"
  shows "validate_auth ev s = Some ''Enter your Anthropic API key to continue.''
    \<and> ''Enter your Anthropic API key to continue.'' \<noteq> []
    \<and> run ev fuel s =
        (Returned,
         print (CHR 0x0A # ''Error: Enter your Anthropic API key to continue.'') (banner s))
    \<and> stdin (snd (run ev fuel s)) = stdin s
    \<and> messages (snd (run ev fuel s)) = messages s
    \<and> log_file (snd (run ev fuel s)) = log_file s
    \<and> run (ev\<lparr>sampling_loop := other_loop\<rparr>) fuel s = run ev fuel s"
  using assms
  by (simp add: validate_auth_def run_def banner_def print_def Let_def)

theorem missing_api_key_stops_run_witness:
  "provider (demo_session\<lparr>api_key := [], stdin := [Line ''hi'', Line '':quit'']\<rparr>) = ANTHROPIC
   \<and> fst (run demo_env 9 (demo_session\<lparr>api_key := [], stdin := [Line ''hi'', Line '':quit'']\<rparr>)) =
       Returned
   \<and> stdin (snd (run demo_env 9
        (demo_session\<lparr>api_key := [], stdin := [Line ''hi'', Line '':quit'']\<rparr>))) =
       [Line ''hi'', Line '':quit'']
   \<and> messages (snd (run demo_env 9
        (demo_session\<lparr>api_key := [], stdin := [Line ''hi'', Line '':quit'']\<rparr>))) = []
   \<and> log_file (snd (run demo_env 9
        (demo_session\<lparr>api_key := [], stdin := [Line ''hi'', Line '':quit'']\<rparr>))) = []"
proof -
  let ?s = "demo_session\<lparr>api_key := [], stdin := [Line ''hi'', Line '':quit'']\<rparr>"
  have a: "provider ?s = ANTHROPIC" by (simp add: demo_session_def)
  have b: "api_key ?s = []" by simp
  have m: "messages ?s = []" "log_file ?s = []" "stdin ?s = [Line ''hi'', Line '':quit'']"
    by (simp_all add: demo_session_def)
  from missing_api_key_stops_run [OF a b, where ev = demo_env and fuel = 9 and other_loop = echo_loop]
  have r: "run demo_env 9 ?s =
        (Returned,
         print (CHR 0x0A # ''Error: Enter your Anthropic API key to continue.'') (banner ?s))"
    and f: "stdin (snd (run demo_env 9 ?s)) = stdin ?s"
      "messages (snd (run demo_env 9 ?s)) = messages ?s"
      "log_file (snd (run demo_env 9 ?s)) = log_file ?s"
    by blast+
  have "fst (run demo_env 9 ?s) = Returned" by (simp only: r fst_conv)
  with a m f show ?thesis by (simp only: simp_thms)
qed

subsection \<open>C7: \<open>:clear\<close> empties the history and nothing else\<close>

lemma show_settings_eq:
  "show_settings ev s = s\<lparr>stdout := stdout s @ settings_shown ev s\<rparr>"
  by (simp add: show_settings_def settings_shown_def print_def Let_def)

text \<open>
  Claim C7. A turn on the command \<open>:clear\<close> sets the history to the empty list and
  leaves the provider, the model, the API key, the image-retention count, the
  image-display toggle, the custom system prompt and the stored configuration files as
  they were (the log too); \<open>show_settings\<close> then prints what it printed before.
\<close>

theorem clear_keeps_configuration:
  assumes "stdin s = Line line # rest"
    and "py_strip line = CHR '':'' # cmd"
    and "py_lower cmd = ''clear''"
  shows "run_iteration ev s =
      (Continue,
       s\<lparr>messages := [], stdin := rest,
         stdout := stdout s @ [Prompt (CHR 0x0A # ''Enter your request (or command): ''),
                               Print ''Conversation history cleared'']\<rparr>)
    \<and> messages (snd (run_iteration ev s)) = []
    \<and> provider (snd (run_iteration ev s)) = provider s
    \<and> model (snd (run_iteration ev s)) = model s
    \<and> api_key (snd (run_iteration ev s)) = api_key s
    \<and> only_n_most_recent_images (snd (run_iteration ev s)) = only_n_most_recent_images s
    \<and> hide_images (snd (run_iteration ev s)) = hide_images s
    \<and> custom_system_prompt (snd (run_iteration ev s)) = custom_system_prompt s
    \<and> storage (snd (run_iteration ev s)) = storage s
    \<and> log_file (snd (run_iteration ev s)) = log_file s
    \<and> show_settings ev (snd (run_iteration ev s)) =
        (snd (run_iteration ev s))
          \<lparr>stdout := stdout (snd (run_iteration ev s)) @ settings_shown ev s\<rparr>"
proof -
  let ?s' = "s\<lparr>messages := [], stdin := rest,
         stdout := stdout s @ [Prompt (CHR 0x0A # ''Enter your request (or command): ''),
                               Print ''Conversation history cleared'']\<rparr>"
  have "loop_body ev s =
      (Inr False, print ''Conversation history cleared'' (line_read s\<lparr>messages := []\<rparr>))"
    using assms by (simp add: loop_body_line [OF assms(1)] Let_def)
  then have r: "run_iteration ev s = (Continue, ?s')"
    using assms(1) by (simp add: run_iteration_def print_def line_read_def)
  have sh: "settings_shown ev ?s' = settings_shown ev s"
    by (simp add: settings_shown_def)
  have "show_settings ev ?s' = ?s'\<lparr>stdout := stdout ?s' @ settings_shown ev s\<rparr>"
    by (simp only: show_settings_eq sh)
  then show ?thesis
    unfolding r by simp
qed

theorem clear_keeps_configuration_witness:
  "fst (run_iteration demo_env
      (demo_session\<lparr>messages := [reply], hide_images := True, stdin := [Line '':CLEAR '']\<rparr>)) =
     Continue
   \<and> messages (snd (run_iteration demo_env
      (demo_session\<lparr>messages := [reply], hide_images := True, stdin := [Line '':CLEAR '']\<rparr>))) = []
   \<and> hide_images (snd (run_iteration demo_env
      (demo_session\<lparr>messages := [reply], hide_images := True, stdin := [Line '':CLEAR '']\<rparr>)))
   \<and> only_n_most_recent_images (snd (run_iteration demo_env
      (demo_session\<lparr>messages := [reply], hide_images := True, stdin := [Line '':CLEAR '']\<rparr>))) =
     10"
proof -
  let ?s = "demo_session\<lparr>messages := [reply], hide_images := True, stdin := [Line '':CLEAR '']\<rparr>"
  have a: "stdin ?s = Line '':CLEAR '' # []" by simp
  have b: "py_strip '':CLEAR '' = CHR '':'' # ''CLEAR''" by code_simp
  have c: "py_lower ''CLEAR'' = ''clear''" by code_simp
  from clear_keeps_configuration [OF a b c, where ev = demo_env]
  show ?thesis by (simp add: demo_session_def)
qed

subsection \<open>C9: an image count that is not a number\<close>

lemma print_providers_only_n:
  "only_n_most_recent_images (print_providers ev i ps s) = only_n_most_recent_images s"
  by (induction ps arbitrary: i s) (simp_all add: print_def)

lemma configure_provider_only_n:
  assumes "configure_provider ev s = (r, s')"
  shows "only_n_most_recent_images s' = only_n_most_recent_images s"
proof -
  let ?s2 = "print_providers ev 0 APIProvider (print (CHR 0x0A # ''Available API Providers:'') s)"
  have a: "only_n_most_recent_images ?s2 = only_n_most_recent_images s"
    by (simp add: print_providers_only_n print_def)
  obtain r1 s3 where i: "py_input ''Select API provider (or press Enter to keep current): '' ?s2
      = (r1, s3)" by fastforce
  then have b: "only_n_most_recent_images s3 = only_n_most_recent_images ?s2"
    by (auto simp: py_input_def Let_def split: list.splits input_event.splits)
  from assms i have "only_n_most_recent_images s' = only_n_most_recent_images s3"
    by (auto simp: configure_provider_def and_then_def Let_def
        split: sum.splits if_splits option.splits)
  with a b show ?thesis by simp
qed

lemma configure_model_only_n:
  assumes "configure_model s = (r, s')"
  shows "only_n_most_recent_images s' = only_n_most_recent_images s"
  using assms
  by (auto simp: configure_model_def and_then_def py_input_def Let_def
      split: list.splits input_event.splits if_splits)

lemma configure_api_key_only_n:
  assumes "configure_api_key s = (r, s')"
  shows "only_n_most_recent_images s' = only_n_most_recent_images s"
  using assms
  by (auto simp: configure_api_key_def and_then_def py_input_def Let_def save_to_storage_def
      split: list.splits input_event.splits if_splits)

lemma configure_hide_images_line:
  assumes "stdin s = Line h # rest"
  shows "\<exists>s'. configure_hide_images s = (Inr (), s') \<and> stdin s' = rest \<and>
     only_n_most_recent_images s' = only_n_most_recent_images s"
  using assms by (simp add: configure_hide_images_def and_then_def py_input_def Let_def)

lemma configure_system_prompt_line:
  assumes "stdin s = Line p # rest"
  shows "\<exists>s'. configure_system_prompt s = (Inr (), s') \<and>
     only_n_most_recent_images s' = only_n_most_recent_images s"
  using assms
  by (simp add: configure_system_prompt_def and_then_def py_input_def Let_def print_def
      save_to_storage_def)

lemma configure_images_invalid:
  assumes "stdin s = Line n_images # rest" "n_images \<noteq> []" "py_int n_images = None"
  shows "configure_images s =
      (Inr (),
       s\<lparr>stdout := stdout s @
           [Prompt (CHR 0x0A #
              ''Enter number of most recent images to keep (press Enter to keep current): ''),
            Print ''Invalid input, keeping current value''],
         stdin := rest\<rparr>)"
  using assms by (simp add: configure_images_def py_input_def Let_def print_def)

text \<open>
  Claim C9. In \<open>configure_settings\<close>, when the answer to the question about the number of
  images is not empty and \<open>int\<close> rejects it, the \<open>ValueError\<close> is caught: that part of the
  function returns normally after printing a message, with the image-retention count as
  it was; and when the answers before and after it are lines of input, the whole of
  \<open>configure_settings\<close> returns normally with the count it started with.
\<close>

theorem invalid_image_count_keeps_value:
  assumes "stdin s = Line n_images # rest" and "n_images \<noteq> []" and "py_int n_images = None"
  shows "configure_images s =
      (Inr (),
       s\<lparr>stdout := stdout s @
           [Prompt (CHR 0x0A #
              ''Enter number of most recent images to keep (press Enter to keep current): ''),
            Print ''Invalid input, keeping current value''],
         stdin := rest\<rparr>)
    \<and> only_n_most_recent_images (snd (configure_images s)) = only_n_most_recent_images s
    \<and> (configure_provider ev (print (CHR 0x0A # ''Configure Settings:'') s0) = (Inr (), s1) \<and>
        configure_model s1 = (Inr (), s2) \<and> configure_api_key s2 = (Inr (), s) \<and>
        rest = Line h # Line p # rest' \<longrightarrow>
        (\<exists>s'. configure_settings ev s0 = (Inr (), s') \<and>
              only_n_most_recent_images s' = only_n_most_recent_images s0))"
proof -
  let ?s4 = "s\<lparr>stdout := stdout s @
           [Prompt (CHR 0x0A #
              ''Enter number of most recent images to keep (press Enter to keep current): ''),
            Print ''Invalid input, keeping current value''],
         stdin := rest\<rparr>"
  have ci: "configure_images s = (Inr (), ?s4)"
    using assms by (rule configure_images_invalid)
  have whole: "\<exists>s'. configure_settings ev s0 = (Inr (), s') \<and>
              only_n_most_recent_images s' = only_n_most_recent_images s0"
    if h: "configure_provider ev (print (CHR 0x0A # ''Configure Settings:'') s0) = (Inr (), s1)"
      "configure_model s1 = (Inr (), s2)" "configure_api_key s2 = (Inr (), s)"
      "rest = Line h # Line p # rest'"
  proof -
    have n: "only_n_most_recent_images s = only_n_most_recent_images s0"
      using configure_provider_only_n [OF h(1)] configure_model_only_n [OF h(2)]
        configure_api_key_only_n [OF h(3)] by (simp add: print_def)
    have "stdin ?s4 = Line h # Line p # rest'" using h(4) by simp
    from configure_hide_images_line [OF this]
    obtain s5 where s5: "configure_hide_images ?s4 = (Inr (), s5)" "stdin s5 = Line p # rest'"
      "only_n_most_recent_images s5 = only_n_most_recent_images ?s4" by blast
    from configure_system_prompt_line [OF s5(2)]
    obtain s6 where s6: "configure_system_prompt s5 = (Inr (), s6)"
      "only_n_most_recent_images s6 = only_n_most_recent_images s5" by blast
    have "configure_settings ev s0 = (Inr (), s6)"
      by (simp add: configure_settings_def and_then_def h(1,2,3) ci s5(1) s6(1))
    moreover have "only_n_most_recent_images s6 = only_n_most_recent_images s0"
      using s6(2) s5(3) n by simp
    ultimately show ?thesis by blast
  qed
  from ci whole show ?thesis by simp
qed

theorem invalid_image_count_keeps_value_witness:
  "py_int ''ten'' = None
   \<and> fst (configure_settings demo_env
        (demo_session\<lparr>stdin := [Line [], Line [], Line [], Line ''ten'', Line ''y'', Line []],
                      only_n_most_recent_images := 7\<rparr>)) = Inr ()
   \<and> only_n_most_recent_images (snd (configure_settings demo_env
        (demo_session\<lparr>stdin := [Line [], Line [], Line [], Line ''ten'', Line ''y'', Line []],
                      only_n_most_recent_images := 7\<rparr>))) = 7"
proof -
  let ?init = "demo_session\<lparr>stdin := [Line [], Line [], Line [], Line ''ten'', Line ''y'', Line []],
                      only_n_most_recent_images := 7\<rparr>"
  let ?pr = "print (CHR 0x0A # ''Configure Settings:'') ?init"
  let ?sa = "snd (configure_provider demo_env ?pr)"
  let ?sb = "snd (configure_model ?sa)"
  let ?sc = "snd (configure_api_key ?sb)"
  have i: "py_int ''ten'' = None" by code_simp
  have "fst (configure_provider demo_env ?pr) = Inr ()" by code_simp
  then have h1: "configure_provider demo_env ?pr = (Inr (), ?sa)" by (metis prod.collapse)
  have "fst (configure_model ?sa) = Inr ()" by code_simp
  then have h2: "configure_model ?sa = (Inr (), ?sb)" by (metis prod.collapse)
  have "fst (configure_api_key ?sb) = Inr ()" by code_simp
  then have h3: "configure_api_key ?sb = (Inr (), ?sc)" by (metis prod.collapse)
  have st: "stdin ?sc = Line ''ten'' # Line ''y'' # Line [] # []" by code_simp
  have ne: "''ten'' \<noteq> []" by simp
  have n0: "only_n_most_recent_images ?init = 7" by simp
  from invalid_image_count_keeps_value [OF st ne i, where ev = demo_env and ?s0.0 = ?init
      and ?s1.0 = ?sa and ?s2.0 = ?sb and h = "''y''" and p = "[]" and rest' = "[]"] h1 h2 h3
  obtain s' where "configure_settings demo_env ?init = (Inr (), s')"
    "only_n_most_recent_images s' = only_n_most_recent_images ?init" by blast
  with i n0 show ?thesis by simp
qed

end
